theory Spec2Isabelle
  imports Complex_Main "HOL-Library.Sublist" "HOL-Library.AList"
begin

section \<open>Settings of the trade copier\<close>

text \<open>
  \<^verbatim>\<open>TradeCopier.settings\<close> is a dictionary read with \<^verbatim>\<open>settings.get(key, default)\<close>.
  Every key the copier reads is a field here; \<open>None\<close> is an absent key, and
  \<open>setting_get\<close> supplies the default written at the place of the read.  Lot sizes,
  balances and prices are Python numbers; they are modelled as reals, flags as
  booleans, textual settings as strings.
\<close>

record settings =
  lot_mode :: "string option"
  fixed_lot :: "real option"
  lot_multiplier :: "real option"
  risk_percent :: "real option"
  min_lot :: "real option"
  max_lot :: "real option"
  copy_buy :: "bool option"
  copy_sell :: "bool option"
  allowed_symbols :: "string option"
  blocked_symbols :: "string option"
  symbol_suffix :: "string option"
  symbol_prefix :: "string option"
  opposite_trades :: "bool option"
  close_on_provider_close :: "bool option"
  magic_number :: "int option"

definition setting_get :: "'a option \<Rightarrow> 'a \<Rightarrow> 'a" where
  "setting_get v d = (case v of None \<Rightarrow> d | Some x \<Rightarrow> x)"

definition no_settings :: settings where
  "no_settings = \<lparr> lot_mode = None, fixed_lot = None, lot_multiplier = None,
     risk_percent = None, min_lot = None, max_lot = None, copy_buy = None,
     copy_sell = None, allowed_symbols = None, blocked_symbols = None,
     symbol_suffix = None, symbol_prefix = None, opposite_trades = None,
     close_on_provider_close = None, magic_number = None \<rparr>"

section \<open>Lot sizing\<close>

text \<open>
  \<^verbatim>\<open>calculate_lot_size\<close>, lines 39 to 60: the volume chosen by the sizing mode,
  before the limits are applied.
\<close>

definition mode_volume :: "settings \<Rightarrow> real \<Rightarrow> real \<Rightarrow> real \<Rightarrow> real" where
  "mode_volume s provider_volume provider_balance receiver_balance =
     (let mode = setting_get (lot_mode s) ''multiplier'' in
      if mode = ''same'' then provider_volume
      else if mode = ''fixed'' then setting_get (fixed_lot s) 0.01
      else if mode = ''multiplier'' then
        provider_volume * setting_get (lot_multiplier s) 1.0
      else if mode = ''ratio'' then
        (if provider_balance > 0
         then provider_volume * (receiver_balance / provider_balance)
         else provider_volume)
      else if mode = ''risk'' then
        (receiver_balance * (setting_get (risk_percent s) 1.0 / 100)) / 1000
      else provider_volume)"

text \<open>Lines 62 to 69: the limits applied to a volume.\<close>

definition apply_limits :: "settings \<Rightarrow> real \<Rightarrow> real" where
  "apply_limits s volume =
     (let lo = setting_get (min_lot s) 0.01;
          hi = setting_get (max_lot s) 100.0
      in if volume < lo then lo else if volume > hi then hi else volume)"

definition calculate_lot_size :: "settings \<Rightarrow> real \<Rightarrow> real \<Rightarrow> real \<Rightarrow> real" where
  "calculate_lot_size s provider_volume provider_balance receiver_balance =
     apply_limits s (mode_volume s provider_volume provider_balance receiver_balance)"

section \<open>Trade filter\<close>

text \<open>
  Python's \<^verbatim>\<open>str.strip()\<close> and \<^verbatim>\<open>str.split(',')\<close>.  Characters are the 8-bit
  characters of HOL; the white space of \<^verbatim>\<open>str.isspace\<close> below code point 256 is
  9 to 13, 28 to 32, 133 and 160.
\<close>

definition is_space :: "char \<Rightarrow> bool" where
  "is_space c = (let n = (of_char c :: nat) in
     (9 \<le> n \<and> n \<le> 13) \<or> (28 \<le> n \<and> n \<le> 32) \<or> n = 133 \<or> n = 160)"

definition py_strip :: "string \<Rightarrow> string" where
  "py_strip s = rev (dropWhile is_space (rev (dropWhile is_space s)))"

primrec py_split :: "char \<Rightarrow> string \<Rightarrow> string list" where
  "py_split sep [] = [[]]"
| "py_split sep (c # cs) =
     (if c = sep then [] # py_split sep cs
      else (case py_split sep cs of
              [] \<Rightarrow> [[c]]
            | w # ws \<Rightarrow> (c # w) # ws))"

text \<open>The list comprehension \<^verbatim>\<open>[s.strip() for s in text.split(',')]\<close>.\<close>

definition symbols_list :: "string \<Rightarrow> string list" where
  "symbols_list text = map py_strip (py_split CHR '','' text)"

text \<open>
  \<^verbatim>\<open>should_copy_trade\<close>, lines 73 to 96.  A non-empty string is truthy, so a list
  is consulted only when its setting is not the empty string.
\<close>

definition should_copy_trade :: "settings \<Rightarrow> string \<Rightarrow> string \<Rightarrow> bool" where
  "should_copy_trade s trade_type symbol =
     (let type_passes =
        (if trade_type \<in> set [''BUY'', ''BUY_LIMIT'', ''BUY_STOP'']
         then setting_get (copy_buy s) True
         else if trade_type \<in> set [''SELL'', ''SELL_LIMIT'', ''SELL_STOP'']
         then setting_get (copy_sell s) True
         else True);
          allowed = setting_get (allowed_symbols s) '''';
          blocked = setting_get (blocked_symbols s) ''''
      in if \<not> type_passes then False
         else if allowed \<noteq> '''' \<and> symbol \<notin> set (symbols_list allowed) then False
         else if blocked \<noteq> '''' \<and> symbol \<in> set (symbols_list blocked) then False
         else True)"

text \<open>
  The rejection condition as the specification words it: market buys only on the
  buy side, market and pending sells on the sell side.
\<close>

definition spec_rejects :: "settings \<Rightarrow> string \<Rightarrow> string \<Rightarrow> bool" where
  "spec_rejects s trade_type symbol =
     ((trade_type = ''BUY'' \<and> \<not> setting_get (copy_buy s) True)
      \<or> (trade_type \<in> set [''SELL'', ''SELL_LIMIT'', ''SELL_STOP'']
           \<and> \<not> setting_get (copy_sell s) True)
      \<or> (setting_get (allowed_symbols s) '''' \<noteq> ''''
           \<and> symbol \<notin> set (symbols_list (setting_get (allowed_symbols s) '''')))
      \<or> (setting_get (blocked_symbols s) '''' \<noteq> ''''
           \<and> symbol \<in> set (symbols_list (setting_get (blocked_symbols s) ''''))))"

section \<open>Opposite trading\<close>

text \<open>
  \<^verbatim>\<open>get_opposite_trade_type\<close>, lines 98 to 108: a dictionary lookup with the
  argument itself as the default.
\<close>

definition opposite_map :: "(string \<times> string) list" where
  "opposite_map =
     [(''BUY'', ''SELL''), (''SELL'', ''BUY''),
      (''BUY_LIMIT'', ''SELL_LIMIT''), (''SELL_LIMIT'', ''BUY_LIMIT''),
      (''BUY_STOP'', ''SELL_STOP''), (''SELL_STOP'', ''BUY_STOP'')]"

definition get_opposite_trade_type :: "string \<Rightarrow> string" where
  "get_opposite_trade_type trade_type =
     (case map_of opposite_map trade_type of
        None \<Rightarrow> trade_type
      | Some t \<Rightarrow> t)"

definition directions :: "string list" where
  "directions = [''BUY'', ''SELL'', ''BUY_LIMIT'', ''SELL_LIMIT'', ''BUY_STOP'', ''SELL_STOP'']"

section \<open>Python string primitives used by the correlation tag\<close>

text \<open>
  \<^verbatim>\<open>s.find(sub)\<close> is the lowest index at which \<open>sub\<close> occurs in \<open>s\<close>, or -1;
  \<^verbatim>\<open>s.find(sub, start)\<close> searches from index \<open>start\<close> on (the copier only calls it
  with a start that is not negative); \<^verbatim>\<open>sub in s\<close> holds when \<open>sub\<close> occurs;
  \<^verbatim>\<open>s[i:j]\<close> is the slice between two indices that are not negative.
\<close>

primrec find_at :: "string \<Rightarrow> string \<Rightarrow> nat \<Rightarrow> int" where
  "find_at sub [] i = (if sub = [] then int i else -1)"
| "find_at sub (c # cs) i =
     (if prefix sub (c # cs) then int i else find_at sub cs (Suc i))"

definition py_find :: "string \<Rightarrow> string \<Rightarrow> int" where
  "py_find s sub = find_at sub s 0"

definition py_find_from :: "string \<Rightarrow> string \<Rightarrow> int \<Rightarrow> int" where
  "py_find_from s sub start =
     (if start < 0 \<or> int (length s) < start then -1
      else find_at sub (drop (nat start) s) (nat start))"

definition py_contains :: "string \<Rightarrow> string \<Rightarrow> bool" where
  "py_contains sub s = (py_find s sub \<noteq> -1)"

definition py_slice :: "string \<Rightarrow> int \<Rightarrow> int \<Rightarrow> string" where
  "py_slice s i j = take (nat j - nat i) (drop (nat i) s)"

text \<open>
  \<^verbatim>\<open>str(n)\<close> of an integer: its decimal digits, after a minus sign when it is
  negative.  Integers are unbounded, and the conversions are taken without the
  interpreter's limit on the number of digits.
\<close>

definition digit_char :: "nat \<Rightarrow> char" where
  "digit_char d = char_of (48 + d)"

fun nat_str :: "nat \<Rightarrow> string" where
  "nat_str n = (if n < 10 then [digit_char n] else nat_str (n div 10) @ [digit_char (n mod 10)])"

definition py_str :: "int \<Rightarrow> string" where
  "py_str i = (if i < 0 then CHR ''-'' # nat_str (nat (- i)) else nat_str (nat i))"

text \<open>
  \<^verbatim>\<open>int(s)\<close> of a string: white space around the literal is dropped, one sign may
  lead, and the rest is decimal digits, where single underscores may stand between
  two digits.  Anything else raises \<^verbatim>\<open>ValueError\<close>, which is \<open>None\<close> here.
\<close>

definition is_digit :: "char \<Rightarrow> bool" where
  "is_digit c = (let n = (of_char c :: nat) in 48 \<le> n \<and> n \<le> 57)"

definition digit_val :: "char \<Rightarrow> nat" where
  "digit_val c = of_char c - 48"

fun py_digits :: "nat \<Rightarrow> string \<Rightarrow> nat option" where
  "py_digits acc [] = Some acc"
| "py_digits acc (c # cs) =
     (if is_digit c then py_digits (acc * 10 + digit_val c) cs
      else if c = CHR ''_'' then
        (case cs of
           [] \<Rightarrow> None
         | d # ds \<Rightarrow> if is_digit d then py_digits acc cs else None)
      else None)"

definition py_nat :: "string \<Rightarrow> nat option" where
  "py_nat s = (case s of
                 [] \<Rightarrow> None
               | c # cs \<Rightarrow> if is_digit c then py_digits 0 s else None)"

definition py_int :: "string \<Rightarrow> int option" where
  "py_int s =
     (case py_strip s of
        [] \<Rightarrow> None
      | c # cs \<Rightarrow>
          if c = CHR ''-'' then map_option (\<lambda>n. - int n) (py_nat cs)
          else if c = CHR ''+'' then map_option int (py_nat cs)
          else map_option int (py_nat (c # cs)))"

section \<open>The correlation tag\<close>

datatype py_error = ValueError string

text \<open>
  Lines 189 to 191 of \<^verbatim>\<open>copy_trades\<close>: the comment written on a copied trade.
\<close>

definition build_comment :: "int \<Rightarrow> bool \<Rightarrow> string" where
  "build_comment provider_ticket opposite =
     (let comment = ''[TKT='' @ py_str provider_ticket @ '']''
      in if opposite then comment @ ''[OPPOSITE]'' else comment)"

text \<open>
  Lines 129 to 134 (and again 139 to 143): the provider ticket read from the comment
  of a receiver trade.  \<open>Inr None\<close>: the trade is passed over; \<open>Inl\<close>: the
  conversion \<^verbatim>\<open>int(comment[start:end])\<close> raised.
\<close>

definition parse_ticket :: "string \<Rightarrow> py_error + int option" where
  "parse_ticket comment =
     (if py_contains ''TKT='' comment then
        (let start = py_find comment ''TKT='' + 4;
             end = py_find_from comment '']'' start
         in if end > start then
              (case py_int (py_slice comment start end) of
                 None \<Rightarrow> Inl (ValueError (py_slice comment start end))
               | Some provider_ticket \<Rightarrow> Inr (Some provider_ticket))
            else Inr None)
      else Inr None)"

section \<open>Trades, accounts and the trading venue\<close>

text \<open>
  A trade is the dictionary the venue client returns for a position or an order.  The
  keys the copier reads with \<^verbatim>\<open>trade['key']\<close> are plain fields; the keys it reads
  with \<^verbatim>\<open>.get\<close> or tests with \<^verbatim>\<open>in\<close> are optional, \<open>None\<close> being an absent key.
  The key \<^verbatim>\<open>'type'\<close> is the field \<open>trade_type\<close>.
\<close>

record trade =
  ticket :: int
  trade_type :: string
  symbol :: string
  volume :: real
  sl :: "real option"
  tp :: "real option"
  comment :: "string option"
  price_open :: "real option"
  price_current :: "real option"

record account =
  name :: string
  broker :: "string option"
  balance :: real

record symbol_mapping =
  provider_symbol :: string
  receiver_symbol :: string
  broker_name :: "string option"

text \<open>
  The calls the copier makes on the venue client \<^verbatim>\<open>self.mt5\<close>, with their arguments
  in the order of the source, and what it writes to the database and the socket.  The
  time stamp of the database row is left out.
\<close>

datatype call =
    ModifyPosition int int "real option" "real option"
  | PlaceTrade int string string real "real option" "real option" string int
  | PlacePendingOrder int string string real real "real option" "real option" string int
  | ClosePosition int int
  | DeleteOrder int int

datatype event =
    TradeCopied string string string string real int
  | TradeClosed int int string
  | OrderDeleted int int string
  | CopyError py_error int int

datatype effect =
    Call call
  | LogCopiedTrade int int int int string string real
  | Emit event

text \<open>
  What surrounds one call of \<^verbatim>\<open>copy_trades\<close>: the database, the snapshots of the
  venue client, and the value the client returns for a call (\<open>0\<close> stands for every
  falsy value: \<^verbatim>\<open>None\<close>, \<^verbatim>\<open>False\<close>, \<^verbatim>\<open>0\<close>).
\<close>

record world =
  get_account :: "int \<Rightarrow> account option"
  get_symbol_mappings :: "symbol_mapping list"
  get_positions :: "int \<Rightarrow> trade list"
  get_orders :: "int \<Rightarrow> trade list"
  reply :: "call \<Rightarrow> int"

section \<open>Symbol mapping\<close>

text \<open>\<^verbatim>\<open>map_symbol\<close>, lines 21 to 35: the first matching row wins.\<close>

definition map_symbol ::
  "settings \<Rightarrow> symbol_mapping list \<Rightarrow> string \<Rightarrow> string \<Rightarrow> string \<Rightarrow> string" where
  "map_symbol s mappings symbol_name provider_broker receiver_broker =
     (case find (\<lambda>mapping. provider_symbol mapping = symbol_name
                   \<and> (broker_name mapping = Some receiver_broker
                        \<or> broker_name mapping = None \<or> broker_name mapping = Some ''''))
             mappings of
        Some mapping \<Rightarrow> receiver_symbol mapping
      | None \<Rightarrow> setting_get (symbol_prefix s) '''' @ symbol_name @ setting_get (symbol_suffix s) '''')"

section \<open>The correlation map\<close>

text \<open>
  Lines 126 to 144.  \<^verbatim>\<open>receiver_trades_map\<close> is a dictionary from provider ticket to
  receiver trade; it is an association list in insertion order, and an assignment to
  a key already present replaces the value in place, as in Python.  A conversion that
  raises leaves the loop, and the whole \<^verbatim>\<open>try\<close> block.
\<close>

fun scan_trades :: "(int \<times> trade) list \<Rightarrow> trade list \<Rightarrow> py_error + (int \<times> trade) list" where
  "scan_trades m [] = Inr m"
| "scan_trades m (t # ts) =
     (case parse_ticket (setting_get (comment t) '''') of
        Inl e \<Rightarrow> Inl e
      | Inr None \<Rightarrow> scan_trades m ts
      | Inr (Some provider_ticket) \<Rightarrow> scan_trades (AList.update provider_ticket t m) ts)"

definition receiver_trades_map :: "trade list \<Rightarrow> trade list \<Rightarrow> py_error + (int \<times> trade) list" where
  "receiver_trades_map receiver_positions receiver_orders =
     (case scan_trades [] receiver_positions of
        Inl e \<Rightarrow> Inl e
      | Inr m \<Rightarrow> scan_trades m receiver_orders)"

section \<open>One provider trade\<close>

text \<open>The body of the loop over the provider trades, lines 148 to 248.\<close>

definition process_trade ::
  "settings \<Rightarrow> world \<Rightarrow> int \<Rightarrow> int \<Rightarrow> account \<Rightarrow> account \<Rightarrow> (int \<times> trade) list
     \<Rightarrow> trade \<Rightarrow> effect list" where
  "process_trade s w provider_id receiver_id provider_account receiver_account m tr =
     (let provider_ticket = ticket tr in
      case map_of m provider_ticket of
        Some existing_trade \<Rightarrow>
          if sl existing_trade \<noteq> sl tr \<or> tp existing_trade \<noteq> tp tr
          then [Call (ModifyPosition receiver_id (ticket existing_trade) (sl tr) (tp tr))]
          else []
      | None \<Rightarrow>
          if \<not> should_copy_trade s (trade_type tr) (symbol tr) then []
          else
            (let mapped_symbol = map_symbol s (get_symbol_mappings w) (symbol tr)
                   (setting_get (broker provider_account) '''')
                   (setting_get (broker receiver_account) '''');
                 vol = calculate_lot_size s (volume tr)
                   (balance provider_account) (balance receiver_account);
                 opposite = setting_get (opposite_trades s) False;
                 ty = (if opposite then get_opposite_trade_type (trade_type tr)
                       else trade_type tr);
                 cmt = build_comment provider_ticket opposite;
                 magic = setting_get (magic_number s) provider_id;
                 order =
                   (if ty \<in> set [''BUY'', ''SELL'']
                    then PlaceTrade receiver_id ty mapped_symbol vol (sl tr) (tp tr) cmt magic
                    else PlacePendingOrder receiver_id ty mapped_symbol vol
                           (setting_get (price_open tr) 0) (sl tr) (tp tr) cmt magic);
                 result = reply w order
             in Call order #
                (if result \<noteq> 0
                 then [LogCopiedTrade provider_id receiver_id provider_ticket result
                         mapped_symbol ty vol,
                       Emit (TradeCopied (name provider_account) (name receiver_account)
                         mapped_symbol ty vol result)]
                 else [])))"

section \<open>Closing what the provider closed\<close>

text \<open>
  \<^verbatim>\<open>close_missing_trades\<close>, lines 266 to 298.  Line 276 takes a receiver trade for a
  position when it has the key \<^verbatim>\<open>price_open\<close> and a truthy \<^verbatim>\<open>price_current\<close>.
\<close>

definition is_position :: "trade \<Rightarrow> bool" where
  "is_position receiver_trade =
     (price_open receiver_trade \<noteq> None
      \<and> (case price_current receiver_trade of None \<Rightarrow> False | Some p \<Rightarrow> p \<noteq> 0))"

definition close_trade :: "world \<Rightarrow> int \<Rightarrow> int \<Rightarrow> trade \<Rightarrow> effect list" where
  "close_trade w receiver_id provider_ticket receiver_trade =
     (if is_position receiver_trade then
        Call (ClosePosition receiver_id (ticket receiver_trade)) #
        (if reply w (ClosePosition receiver_id (ticket receiver_trade)) \<noteq> 0
         then [Emit (TradeClosed (ticket receiver_trade) provider_ticket ''Provider closed'')]
         else [])
      else
        Call (DeleteOrder receiver_id (ticket receiver_trade)) #
        (if reply w (DeleteOrder receiver_id (ticket receiver_trade)) \<noteq> 0
         then [Emit (OrderDeleted (ticket receiver_trade) provider_ticket ''Provider deleted'')]
         else []))"

definition close_missing_trades ::
  "world \<Rightarrow> trade list \<Rightarrow> (int \<times> trade) list \<Rightarrow> int \<Rightarrow> effect list" where
  "close_missing_trades w provider_trades m receiver_id =
     (let provider_tickets = set (map ticket provider_trades) in
      concat (map (\<lambda>(provider_ticket, receiver_trade).
                     if provider_ticket \<notin> provider_tickets
                     then close_trade w receiver_id provider_ticket receiver_trade
                     else [])
                  m))"

section \<open>One copy cycle of a pair\<close>

text \<open>
  \<^verbatim>\<open>copy_trades\<close>, lines 110 to 264; the result is what the cycle does, in order.
  The handler of line 258 catches the error of the tag conversion and emits the
  error event; nothing has been done before it, and nothing is done after it.
\<close>

definition copy_trades :: "settings \<Rightarrow> world \<Rightarrow> int \<Rightarrow> int \<Rightarrow> trade list \<Rightarrow> effect list" where
  "copy_trades s w provider_id receiver_id provider_trades =
     (case get_account w provider_id of
        None \<Rightarrow> []
      | Some provider_account \<Rightarrow>
          (case get_account w receiver_id of
             None \<Rightarrow> []
           | Some receiver_account \<Rightarrow>
               (case receiver_trades_map (get_positions w receiver_id)
                                         (get_orders w receiver_id) of
                  Inl e \<Rightarrow> [Emit (CopyError e provider_id receiver_id)]
                | Inr m \<Rightarrow>
                    concat (map (process_trade s w provider_id receiver_id
                                   provider_account receiver_account m)
                                provider_trades)
                    @ (if setting_get (close_on_provider_close s) True
                       then close_missing_trades w provider_trades m receiver_id
                       else []))))"

section \<open>Reading a trace of effects\<close>

text \<open>
  The receiver ticket a call works on: the ticket modified, closed or deleted.  The
  two calls that open a trade work on no existing ticket.
\<close>

fun touched :: "call \<Rightarrow> int option" where
  "touched (ModifyPosition receiver_id tk new_sl new_tp) = Some tk"
| "touched (ClosePosition receiver_id tk) = Some tk"
| "touched (DeleteOrder receiver_id tk) = Some tk"
| "touched (PlaceTrade a b c d e f g h) = None"
| "touched (PlacePendingOrder a b c d e f g h i) = None"

fun calls :: "effect list \<Rightarrow> call list" where
  "calls [] = []"
| "calls (Call c # es) = c # calls es"
| "calls (e # es) = calls es"

fun is_close_or_delete :: "call \<Rightarrow> bool" where
  "is_close_or_delete (ClosePosition receiver_id tk) = True"
| "is_close_or_delete (DeleteOrder receiver_id tk) = True"
| "is_close_or_delete c = False"

text \<open>The call the orphan pass makes for one receiver trade.\<close>

definition orphan_call :: "int \<Rightarrow> trade \<Rightarrow> call" where
  "orphan_call receiver_id receiver_trade =
     (if is_position receiver_trade
      then ClosePosition receiver_id (ticket receiver_trade)
      else DeleteOrder receiver_id (ticket receiver_trade))"

text \<open>Some concrete trades, accounts and worlds for the examples below.\<close>

definition a_trade :: "int \<Rightarrow> string \<Rightarrow> trade" where
  "a_trade tk ty = \<lparr> ticket = tk, trade_type = ty, symbol = ''EURUSD'', volume = 1,
     sl = None, tp = None, comment = None, price_open = Some 1, price_current = Some 1 \<rparr>"

definition an_account :: "string \<Rightarrow> account" where
  "an_account n = \<lparr> name = n, broker = None, balance = 10000 \<rparr>"

definition a_world :: "trade list \<Rightarrow> trade list \<Rightarrow> world" where
  "a_world receiver_positions receiver_orders =
     \<lparr> get_account = (\<lambda>i. if i = 1 then Some (an_account ''provider'')
                           else if i = 2 then Some (an_account ''receiver'') else None),
       get_symbol_mappings = [],
       get_positions = (\<lambda>i. if i = 2 then receiver_positions else []),
       get_orders = (\<lambda>i. if i = 2 then receiver_orders else []),
       reply = (\<lambda>c. 1) \<rparr>"

definition tagged_position :: trade where
  "tagged_position = (a_trade 900 ''BUY'')\<lparr>comment := Some ''[TKT=555]''\<rparr>"

definition manual_position :: trade where
  "manual_position = a_trade 901 ''SELL''"

definition tagged_order :: trade where
  "tagged_order =
     (a_trade 902 ''BUY_LIMIT'')\<lparr>comment := Some ''[TKT=556]'', price_current := None\<rparr>"

definition malformed_position :: trade where
  "malformed_position = (a_trade 903 ''BUY'')\<lparr>comment := Some ''[TKT=abc]''\<rparr>"

definition example_world :: world where
  "example_world = a_world [tagged_position, manual_position] [tagged_order]"

section \<open>Properties of the policy functions\<close>




text \<open>
  Claim C5.  Before the limits are applied the volume is: the provider volume in mode
  same; the fixed lot of the policy in mode fixed; provider volume times multiplier
  in mode multiplier; provider volume times receiver balance over provider balance in
  mode ratio when the provider balance is positive, the provider volume otherwise;
  receiver balance times risk percent over 100, over 1000, in mode risk.  With
  multiplier 2.0 and limits 0.01 and 5.0, provider volume 1.2 gives 2.4 and provider
  volume 3.0 gives 5.0.
\<close>

theorem mode_volume_by_mode:
  "mode_volume (s\<lparr>lot_mode := Some ''same''\<rparr>) pv pb rb = pv
   \<and> mode_volume (s\<lparr>lot_mode := Some ''fixed''\<rparr>) pv pb rb = setting_get (fixed_lot s) 0.01
   \<and> mode_volume (s\<lparr>lot_mode := Some ''multiplier''\<rparr>) pv pb rb
       = pv * setting_get (lot_multiplier s) 1.0
   \<and> mode_volume (s\<lparr>lot_mode := Some ''ratio''\<rparr>) pv pb rb
       = (if pb > 0 then pv * (rb / pb) else pv)
   \<and> mode_volume (s\<lparr>lot_mode := Some ''risk''\<rparr>) pv pb rb
       = (rb * (setting_get (risk_percent s) 1.0 / 100)) / 1000
   \<and> calculate_lot_size s pv pb rb = apply_limits s (mode_volume s pv pb rb)
   \<and> calculate_lot_size (s\<lparr>lot_mode := Some ''multiplier'', lot_multiplier := Some 2.0,
          min_lot := Some 0.01, max_lot := Some 5.0\<rparr>) 1.2 pb rb = 2.4
   \<and> calculate_lot_size (s\<lparr>lot_mode := Some ''multiplier'', lot_multiplier := Some 2.0,
          min_lot := Some 0.01, max_lot := Some 5.0\<rparr>) 3.0 pb rb = 5.0"
  by (simp add: mode_volume_def calculate_lot_size_def apply_limits_def setting_get_def)

theorem mode_volume_by_mode_witness:
  "mode_volume (no_settings\<lparr>lot_mode := Some ''ratio''\<rparr>) 2 1000 4000 = 8
   \<and> mode_volume (no_settings\<lparr>lot_mode := Some ''ratio''\<rparr>) 2 0 4000 = 2
   \<and> mode_volume (no_settings\<lparr>lot_mode := Some ''risk''\<rparr>) 2 1000 4000 = 4 / 100
   \<and> mode_volume (no_settings\<lparr>lot_mode := Some ''fixed''\<rparr>) 2 1000 4000 = 1 / 100"
  using mode_volume_by_mode [of no_settings 2 1000 4000]
        mode_volume_by_mode [of no_settings 2 0 4000]
  by (simp add: no_settings_def setting_get_def)



text \<open>
  Claim C9.  On each of the six trade directions the opposite mapping applied twice
  gives the direction back, and applied once it gives the mirror direction: BUY and
  SELL, BUY_LIMIT and SELL_LIMIT, BUY_STOP and SELL_STOP are exchanged.
\<close>

theorem opposite_is_involution:
  "(\<forall>d \<in> set directions. get_opposite_trade_type (get_opposite_trade_type d) = d)
   \<and> map get_opposite_trade_type directions
       = [''SELL'', ''BUY'', ''SELL_LIMIT'', ''BUY_LIMIT'', ''SELL_STOP'', ''BUY_STOP'']"
  by (simp add: directions_def get_opposite_trade_type_def opposite_map_def)

theorem opposite_is_involution_witness:
  "''BUY_STOP'' \<in> set directions
   \<and> get_opposite_trade_type (get_opposite_trade_type ''BUY_STOP'') = ''BUY_STOP''"
  using opposite_is_involution by (simp add: directions_def)

text \<open>
  Claim C4, as the code has it.  \<^verbatim>\<open>should_copy_trade\<close> returns false exactly when
  the trade is a market or pending buy and \<^verbatim>\<open>copy_buy\<close> is false, or it is a market
  or pending sell and \<^verbatim>\<open>copy_sell\<close> is false, or an allow-list is configured and
  the symbol is not in it, or the symbol is in the configured block-list.  A symbol
  in both lists is rejected.
\<close>

theorem should_copy_trade_rejects_iff:
  "(\<not> should_copy_trade s ty symbol_name \<longleftrightarrow>
      (ty \<in> set [''BUY'', ''BUY_LIMIT'', ''BUY_STOP'']
         \<and> \<not> setting_get (copy_buy s) True)
      \<or> (ty \<in> set [''SELL'', ''SELL_LIMIT'', ''SELL_STOP'']
           \<and> \<not> setting_get (copy_sell s) True)
      \<or> (setting_get (allowed_symbols s) '''' \<noteq> ''''
           \<and> symbol_name \<notin> set (symbols_list (setting_get (allowed_symbols s) '''')))
      \<or> (setting_get (blocked_symbols s) '''' \<noteq> ''''
           \<and> symbol_name \<in> set (symbols_list (setting_get (blocked_symbols s) ''''))))
   \<and> (setting_get (allowed_symbols s) '''' \<noteq> ''''
        \<and> symbol_name \<in> set (symbols_list (setting_get (allowed_symbols s) ''''))
        \<and> setting_get (blocked_symbols s) '''' \<noteq> ''''
        \<and> symbol_name \<in> set (symbols_list (setting_get (blocked_symbols s) ''''))
      \<longrightarrow> \<not> should_copy_trade s ty symbol_name)"
  unfolding should_copy_trade_def Let_def by auto

theorem should_copy_trade_rejects_iff_witness:
  "symbols_list ''EURUSD, XAUUSD'' = [''EURUSD'', ''XAUUSD'']
   \<and> symbols_list ''XAUUSD'' = [''XAUUSD'']
   \<and> \<not> should_copy_trade
        (no_settings\<lparr>allowed_symbols := Some ''EURUSD, XAUUSD'',
                      blocked_symbols := Some ''XAUUSD''\<rparr>) ''SELL'' ''XAUUSD''
   \<and> should_copy_trade
        (no_settings\<lparr>allowed_symbols := Some ''EURUSD, XAUUSD'',
                      blocked_symbols := Some ''XAUUSD''\<rparr>) ''SELL'' ''EURUSD''"
  using should_copy_trade_rejects_iff
    [of "no_settings\<lparr>allowed_symbols := Some ''EURUSD, XAUUSD'',
                       blocked_symbols := Some ''XAUUSD''\<rparr>" "''SELL''" "''XAUUSD''"]
    should_copy_trade_rejects_iff
    [of "no_settings\<lparr>allowed_symbols := Some ''EURUSD, XAUUSD'',
                       blocked_symbols := Some ''XAUUSD''\<rparr>" "''SELL''" "''EURUSD''"]
  by (simp add: no_settings_def setting_get_def symbols_list_def py_strip_def is_space_def)

text \<open>
  The claim as the specification words it names only market buys on the buy side.
  With \<^verbatim>\<open>copy_buy\<close> false and no symbol list, a BUY_LIMIT order meets none of the
  four conditions of the specification, and the code rejects it.
\<close>

theorem pending_buy_counterexample:
  "should_copy_trade (no_settings\<lparr>copy_buy := Some False\<rparr>) ''BUY_LIMIT'' ''EURUSD''
     \<noteq> (\<not> spec_rejects (no_settings\<lparr>copy_buy := Some False\<rparr>) ''BUY_LIMIT'' ''EURUSD'')"
  by (simp add: should_copy_trade_def spec_rejects_def no_settings_def setting_get_def)

section \<open>The tag written by the copier is read back\<close>

declare nat_str.simps [simp del]

lemma of_char_digit_char: "d < 10 \<Longrightarrow> (of_char (digit_char d) :: nat) = 48 + d"
  by (simp add: digit_char_def)

lemma digit_char_props:
  assumes "d < 10"
  shows "is_digit (digit_char d)" "digit_val (digit_char d) = d"
    "\<not> is_space (digit_char d)" "digit_char d \<noteq> CHR '']''"
proof -
  note oc = of_char_digit_char [OF assms]
  show "is_digit (digit_char d)" using assms by (simp add: is_digit_def oc)
  show "digit_val (digit_char d) = d" by (simp add: digit_val_def oc)
  show "\<not> is_space (digit_char d)" using assms by (simp add: is_space_def oc)
  show "digit_char d \<noteq> CHR '']''"
  proof
    assume "digit_char d = CHR '']''"
    then have "(of_char (digit_char d) :: nat) = of_char CHR '']''" by simp
    with assms show False by (simp add: oc)
  qed
qed

lemma nat_str_digits: "c \<in> set (nat_str n) \<Longrightarrow> \<exists>d<10. c = digit_char d"
proof (induction n rule: nat_str.induct)
  case (1 n)
  show ?case
  proof (cases "n < 10")
    case True
    with "1.prems" show ?thesis by (auto simp: nat_str.simps [of n])
  next
    case False
    with "1.prems" have "c \<in> set (nat_str (n div 10)) \<or> c = digit_char (n mod 10)"
      by (auto simp: nat_str.simps [of n])
    then show ?thesis
    proof
      assume "c \<in> set (nat_str (n div 10))"
      with False "1.IH" show ?thesis by simp
    next
      assume "c = digit_char (n mod 10)"
      moreover have "n mod 10 < 10" by simp
      ultimately show ?thesis by blast
    qed
  qed
qed

lemma nat_str_nonempty: "nat_str n \<noteq> []"
  by (subst nat_str.simps) simp

lemma py_digits_append:
  "\<forall>c \<in> set xs. is_digit c \<Longrightarrow>
     py_digits acc (xs @ ys) = py_digits (foldl (\<lambda>a c. a * 10 + digit_val c) acc xs) ys"
  by (induction xs arbitrary: acc) simp_all

lemma decimal_value_nat_str: "foldl (\<lambda>a c. a * 10 + digit_val c) 0 (nat_str n) = n"
proof (induction n rule: nat_str.induct)
  case (1 n)
  show ?case
  proof (cases "n < 10")
    case True
    then show ?thesis by (simp add: nat_str.simps [of n] digit_char_props)
  next
    case False
    with "1.IH" show ?thesis
      by (simp add: nat_str.simps [of n] digit_char_props)
  qed
qed

lemma py_nat_nat_str: "py_nat (nat_str n) = Some n"
proof -
  have all: "\<forall>c \<in> set (nat_str n). is_digit c"
    using nat_str_digits digit_char_props(1) by blast
  obtain c cs where cs: "nat_str n = c # cs"
    using nat_str_nonempty [of n] by (cases "nat_str n") auto
  then have "is_digit c" using all by simp
  moreover have "py_digits 0 (nat_str n) = Some n"
    using py_digits_append [OF all, of 0 "[]"] by (simp add: decimal_value_nat_str)
  ultimately show ?thesis by (simp add: py_nat_def cs)
qed

lemma py_strip_unchanged:
  assumes "s \<noteq> []" "\<not> is_space (hd s)" "\<not> is_space (last s)"
  shows "py_strip s = s"
proof -
  from assms obtain c cs where s: "s = c # cs" by (cases s) auto
  with assms have 1: "dropWhile is_space s = s" by simp
  from assms(1,3) have 2: "dropWhile is_space (rev s) = rev s"
    by (cases s rule: rev_cases) auto
  show ?thesis by (simp add: py_strip_def 1 2)
qed

lemma nat_str_no_space: "c \<in> set (nat_str n) \<Longrightarrow> \<not> is_space c"
  using nat_str_digits digit_char_props(3) by blast

lemma py_int_py_str: "py_int (py_str t) = Some t"
proof (cases "t < 0")
  case True
  let ?ds = "nat_str (nat (- t))"
  have ne: "?ds \<noteq> []" by (rule nat_str_nonempty)
  have "\<not> is_space (last (CHR ''-'' # ?ds))"
    using ne nat_str_no_space [of "last ?ds" "nat (- t)"] by simp
  moreover have "\<not> is_space CHR ''-''" by (simp add: is_space_def)
  ultimately have "py_strip (CHR ''-'' # ?ds) = CHR ''-'' # ?ds"
    by (intro py_strip_unchanged) simp_all
  with True show ?thesis by (simp add: py_int_def py_str_def py_nat_nat_str)
next
  case False
  let ?ds = "nat_str (nat t)"
  obtain c cs where cs: "?ds = c # cs"
    using nat_str_nonempty [of "nat t"] by (cases ?ds) auto
  have ne: "?ds \<noteq> []" by (rule nat_str_nonempty)
  have "\<not> is_space (hd ?ds)" "\<not> is_space (last ?ds)"
    using ne nat_str_no_space [of _ "nat t"] by simp_all
  then have strip: "py_strip ?ds = ?ds" using ne by (intro py_strip_unchanged)
  obtain d where d: "d < 10" "c = digit_char d"
    using nat_str_digits [of c "nat t"] cs by auto
  have "c \<noteq> CHR ''-''" "c \<noteq> CHR ''+''"
  proof -
    have oc: "(of_char c :: nat) = 48 + d" using d by (simp add: of_char_digit_char)
    show "c \<noteq> CHR ''-''" using oc by auto
    show "c \<noteq> CHR ''+''" using oc by auto
  qed
  moreover have "py_nat (c # cs) = Some (nat t)"
    using py_nat_nat_str [of "nat t"] cs by simp
  ultimately show ?thesis using False
    by (simp add: py_int_def py_str_def strip [unfolded cs] cs)
qed

lemma find_at_skip:
  "sub \<noteq> [] \<Longrightarrow> \<forall>c \<in> set xs. c \<noteq> hd sub \<Longrightarrow>
     find_at sub (xs @ ys) i = find_at sub ys (i + length xs)"
proof (induction xs arbitrary: i)
  case Nil
  then show ?case by simp
next
  case (Cons x xs)
  from Cons.prems have "\<not> prefix sub (x # xs @ ys)"
    by (cases sub) auto
  with Cons show ?case by simp
qed

lemma py_str_no_bracket: "c \<in> set (py_str t) \<Longrightarrow> c \<noteq> CHR '']''"
  using nat_str_digits digit_char_props(4)
  by (fastforce simp: py_str_def split: if_splits)

lemma py_str_nonempty: "py_str t \<noteq> []"
  by (simp add: py_str_def nat_str_nonempty)

lemma parse_tagged:
  "parse_ticket (''[TKT='' @ py_str t @ CHR '']'' # rest) = Inr (Some t)"
proof -
  define c where "c = ''[TKT='' @ py_str t @ CHR '']'' # rest"
  have f: "py_find c ''TKT='' = 1" by (simp add: py_find_def c_def)
  have "find_at '']'' (py_str t @ CHR '']'' # rest) 5 = 5 + int (length (py_str t))"
    using find_at_skip [of "'']''" "py_str t" "CHR '']'' # rest" 5] py_str_no_bracket
    by auto
  then have e: "py_find_from c '']'' 5 = 5 + int (length (py_str t))"
    by (simp add: py_find_from_def c_def)
  have len: "0 < length (py_str t)" using py_str_nonempty by simp
  have sl: "py_slice c 5 (5 + int (length (py_str t))) = py_str t"
    by (simp add: py_slice_def nat_add_distrib c_def)
  have "parse_ticket c = Inr (Some t)"
    using len by (simp add: parse_ticket_def py_contains_def f e sl py_int_py_str)
  then show ?thesis by (simp only: c_def)
qed

lemma parse_ticket_without_tag:
  "\<not> py_contains ''TKT='' c \<Longrightarrow> parse_ticket c = Inr None"
  by (simp add: parse_ticket_def)

lemma parse_ticket_unclosed_tag:
  "py_find_from c '']'' (py_find c ''TKT='' + 4) = - 1 \<Longrightarrow> parse_ticket c = Inr None"
proof -
  assume none: "py_find_from c '']'' (py_find c ''TKT='' + 4) = - 1"
  have "- 1 \<le> py_find c ''TKT=''"
  proof -
    have "- 1 \<le> find_at sub s i" for sub s i
      by (induction s arbitrary: i) simp_all
    then show ?thesis by (simp add: py_find_def)
  qed
  with none show ?thesis by (simp add: parse_ticket_def Let_def)
qed

lemma build_comment_555:
  "build_comment 555 True = ''[TKT=555][OPPOSITE]''"
  "build_comment 555 False = ''[TKT=555]''"
  by code_simp+

text \<open>
  Claim C2, as the code has it.  For every provider ticket and either value of the
  opposite setting, the ticket parser of the correlation map reads the provider
  ticket back from the comment the copier writes.  The parser reads the ticket only.
\<close>

theorem parse_ticket_build_comment:
  "parse_ticket (build_comment t opposite) = Inr (Some t)"
  using parse_tagged [of t "[]"] parse_tagged [of t "''[OPPOSITE]''"]
  by (cases opposite) (simp_all add: build_comment_def)

theorem parse_ticket_build_comment_witness:
  "parse_ticket ''[TKT=555][OPPOSITE]'' = Inr (Some 555)"
  using parse_ticket_build_comment [of 555 True] by (simp add: build_comment_555)

text \<open>
  The claim as the specification words it has the parser recover the opposite flag
  as well.  The two comments of ticket 555 differ, and the parser gives the same
  result on both: nothing in its result tells the flag.
\<close>

theorem opposite_flag_counterexample:
  "build_comment 555 True \<noteq> build_comment 555 False
   \<and> parse_ticket (build_comment 555 True) = parse_ticket (build_comment 555 False)"
  using parse_tagged [of 555 "[]"] parse_tagged [of 555 "''[OPPOSITE]''"]
  by (simp add: build_comment_def)

section \<open>The correlation map and the calls of a cycle\<close>

lemma update_entries:
  "(k, r) \<in> set (AList.update k' t m) \<Longrightarrow> (k, r) \<in> set m \<or> (k = k' \<and> r = t)"
  by (induction m) (auto split: if_splits)

lemma scan_trades_entries:
  "scan_trades m ts = Inr m' \<Longrightarrow> (k, r) \<in> set m' \<Longrightarrow>
     (k, r) \<in> set m
     \<or> (r \<in> set ts \<and> parse_ticket (setting_get (comment r) '''') = Inr (Some k))"
proof (induction ts arbitrary: m)
  case Nil
  then show ?case by simp
next
  case (Cons t ts)
  show ?case
  proof (cases "parse_ticket (setting_get (comment t) '''')")
    case (Inl e)
    with Cons.prems show ?thesis by simp
  next
    case (Inr found)
    show ?thesis
    proof (cases found)
      case None
      with Inr Cons.prems have "scan_trades m ts = Inr m'" by simp
      from Cons.IH [OF this Cons.prems(2)] show ?thesis by auto
    next
      case (Some k')
      with Inr Cons.prems have "scan_trades (AList.update k' t m) ts = Inr m'" by simp
      from Cons.IH [OF this Cons.prems(2)] show ?thesis
        using Inr Some by (auto dest: update_entries)
    qed
  qed
qed


lemma receiver_trades_map_entries:
  assumes "receiver_trades_map ps os = Inr m" "(k, r) \<in> set m"
  shows "r \<in> set (ps @ os) \<and> parse_ticket (setting_get (comment r) '''') = Inr (Some k)"
proof -
  from assms(1) obtain m0 where m0: "scan_trades [] ps = Inr m0" "scan_trades m0 os = Inr m"
    by (auto simp: receiver_trades_map_def split: sum.splits)
  from scan_trades_entries [OF m0(2) assms(2)] scan_trades_entries [OF m0(1), of k r]
  show ?thesis by auto
qed


lemma calls_append: "calls (xs @ ys) = calls xs @ calls ys"
  by (induction xs rule: calls.induct) simp_all

lemma calls_concat: "calls (concat xss) = concat (map calls xss)"
  by (induction xss) (simp_all add: calls_append)

lemma calls_process_trade:
  "calls (process_trade s w pid rid pa ra m tr) =
     (case map_of m (ticket tr) of
        Some existing \<Rightarrow>
          if sl existing \<noteq> sl tr \<or> tp existing \<noteq> tp tr
          then [ModifyPosition rid (ticket existing) (sl tr) (tp tr)] else []
      | None \<Rightarrow> filter (\<lambda>c. touched c = None) (calls (process_trade s w pid rid pa ra m tr)))"
  by (simp add: process_trade_def Let_def split: option.splits)

lemma process_trade_touches:
  assumes "c \<in> set (calls (process_trade s w pid rid pa ra m tr))" "touched c = Some tk"
  shows "\<not> is_close_or_delete c \<and> (\<exists>k r. (k, r) \<in> set m \<and> ticket r = tk)"
proof (cases "map_of m (ticket tr)")
  case None
  with assms calls_process_trade [of s w pid rid pa ra m tr]
  have "c \<in> set (filter (\<lambda>c. touched c = None) (calls (process_trade s w pid rid pa ra m tr)))"
    by simp
  with assms(2) show ?thesis by simp
next
  case (Some existing)
  then have "(ticket tr, existing) \<in> set m" by (rule map_of_SomeD)
  moreover from Some assms(1) calls_process_trade [of s w pid rid pa ra m tr]
  have "c = ModifyPosition rid (ticket existing) (sl tr) (tp tr)"
    by (simp split: if_splits)
  ultimately show ?thesis using assms(2) by auto
qed

lemma calls_close_trade: "calls (close_trade w rid k r) = [orphan_call rid r]"
  by (simp add: close_trade_def orphan_call_def)

lemma calls_close_missing_trades:
  "calls (close_missing_trades w P m rid) =
     map (\<lambda>(k, r). orphan_call rid r) (filter (\<lambda>(k, r). k \<notin> ticket ` set P) m)"
  unfolding close_missing_trades_def Let_def calls_concat
  by (induction m) (auto simp: calls_close_trade)


lemma touched_orphan_call: "touched (orphan_call rid r) = Some (ticket r)"
  by (simp add: orphan_call_def)

lemma calls_copy_trades:
  assumes "get_account w pid = Some pa" "get_account w rid = Some ra"
    "receiver_trades_map (get_positions w rid) (get_orders w rid) = Inr m"
  shows "calls (copy_trades s w pid rid P) =
           concat (map (\<lambda>tr. calls (process_trade s w pid rid pa ra m tr)) P)
           @ (if setting_get (close_on_provider_close s) True
              then map (\<lambda>(k, r). orphan_call rid r) (filter (\<lambda>(k, r). k \<notin> ticket ` set P) m)
              else [])"
  using assms
  by (simp add: copy_trades_def calls_append calls_concat calls_close_missing_trades comp_def)





section \<open>A worked cycle\<close>

lemma example_tags:
  "parse_ticket ''[TKT=555]'' = Inr (Some 555)"
  "parse_ticket ''[TKT=556]'' = Inr (Some 556)"
  "parse_ticket ''[TKT=abc]'' = Inl (ValueError ''abc'')"
  "parse_ticket '''' = Inr None"
  by code_simp+

lemma example_map:
  "receiver_trades_map [tagged_position, manual_position] [tagged_order]
     = Inr [(555, tagged_position), (556, tagged_order)]"
  by (simp add: receiver_trades_map_def tagged_position_def manual_position_def
      tagged_order_def a_trade_def setting_get_def example_tags)

lemma example_world_simps:
  "get_account example_world 1 = Some (an_account ''provider'')"
  "get_account example_world 2 = Some (an_account ''receiver'')"
  "get_positions example_world 2 = [tagged_position, manual_position]"
  "get_orders example_world 2 = [tagged_order]"
  "get_symbol_mappings example_world = []"
  "reply example_world c = 1"
  by (simp_all add: example_world_def a_world_def)

lemma example_tickets:
  "ticket tagged_position = 900" "ticket manual_position = 901" "ticket tagged_order = 902"
  "is_position tagged_position" "\<not> is_position tagged_order"
  "comment manual_position = None"
  by (simp_all add: tagged_position_def manual_position_def tagged_order_def a_trade_def
      is_position_def)

lemma example_cycle:
  "calls (copy_trades no_settings example_world 1 2 [a_trade 557 ''SELL_STOP''])
     = [PlacePendingOrder 2 ''SELL_STOP'' ''EURUSD'' 1 1 None None ''[TKT=557]'' 1,
        ClosePosition 2 900, DeleteOrder 2 902]"
proof -
  have b: "build_comment 557 False = ''[TKT=557]''" by code_simp
  have "process_trade no_settings example_world 1 2 (an_account ''provider'')
          (an_account ''receiver'') [(555, tagged_position), (556, tagged_order)]
          (a_trade 557 ''SELL_STOP'')
        = [Call (PlacePendingOrder 2 ''SELL_STOP'' ''EURUSD'' 1 1 None None ''[TKT=557]'' 1),
           LogCopiedTrade 1 2 557 1 ''EURUSD'' ''SELL_STOP'' 1,
           Emit (TradeCopied ''provider'' ''receiver'' ''EURUSD'' ''SELL_STOP'' 1 1)]"
    by (simp add: process_trade_def a_trade_def should_copy_trade_def map_symbol_def
        calculate_lot_size_def mode_volume_def apply_limits_def setting_get_def
        no_settings_def an_account_def example_world_simps b Let_def)
  then show ?thesis
    by (simp add: copy_trades_def example_world_simps example_map close_missing_trades_def
        close_trade_def example_tickets setting_get_def no_settings_def a_trade_def)
qed


section \<open>Trades that are already copied\<close>

text \<open>
  Claim C6.  For a provider trade whose ticket is a key of the correlation map, the
  copier calls \<^verbatim>\<open>modify_position\<close> on the matched receiver trade, with the stop
  loss and take profit of the provider trade, exactly when the stop loss or the take
  profit of the two differ, and does nothing otherwise.  What it does depends on no
  setting, symbol mapping, balance or venue reply: it does not size, filter or open.
\<close>

theorem already_copied_only_modifies:
  assumes "map_of m (ticket tr) = Some existing"
  shows "process_trade s w pid rid pa ra m tr
           = (if sl existing \<noteq> sl tr \<or> tp existing \<noteq> tp tr
              then [Call (ModifyPosition rid (ticket existing) (sl tr) (tp tr))]
              else [])
         \<and> process_trade s w pid rid pa ra m tr = process_trade s' w' pid' rid pa' ra' m tr"
  using assms by (simp add: process_trade_def)

theorem already_copied_only_modifies_witness:
  "map_of [(555, tagged_position)] (ticket ((a_trade 555 ''BUY'')\<lparr>sl := Some 1.1\<rparr>))
     = Some tagged_position
   \<and> process_trade no_settings example_world 1 2 (an_account ''provider'')
       (an_account ''receiver'') [(555, tagged_position)]
       ((a_trade 555 ''BUY'')\<lparr>sl := Some 1.1\<rparr>)
     = [Call (ModifyPosition 2 900 (Some 1.1) None)]
   \<and> process_trade (no_settings\<lparr>copy_buy := Some False\<rparr>) example_world 1 2
       (an_account ''provider'') (an_account ''receiver'') [(555, tagged_position)]
       (a_trade 555 ''BUY'')
     = []"
  using already_copied_only_modifies [of "[(555, tagged_position)]" "(a_trade 555 ''BUY'')\<lparr>sl := Some 1.1\<rparr>"
      tagged_position no_settings example_world 1 2 "an_account ''provider''"
      "an_account ''receiver''"]
    already_copied_only_modifies [of "[(555, tagged_position)]" "a_trade 555 ''BUY''"
      tagged_position "no_settings\<lparr>copy_buy := Some False\<rparr>" example_world 1 2
      "an_account ''provider''" "an_account ''receiver''"]
  by (simp add: a_trade_def tagged_position_def)

section \<open>A tag that does not hold an integer\<close>

text \<open>
  Claim C7 says that a receiver trade with a malformed tag is passed over in silence
  and the cycle goes on.  The guards of lines 129 and 133 pass over a comment without
  \<^verbatim>\<open>TKT=\<close> and one without a closing bracket after it; a comment \<^verbatim>\<open>[TKT=abc]\<close>
  passes both guards, the conversion raises, and the handler of line 258 ends the
  cycle with an error event: the provider trade 557 is not copied, where it is copied
  when the same receiver holds an untagged position instead.
\<close>

theorem malformed_tag_aborts_cycle:
  "copy_trades no_settings (a_world [malformed_position] []) 1 2 [a_trade 557 ''SELL'']
     = [Emit (CopyError (ValueError ''abc'') 1 2)]
   \<and> calls (copy_trades no_settings (a_world [manual_position] []) 1 2 [a_trade 557 ''SELL''])
     = [PlaceTrade 2 ''SELL'' ''EURUSD'' 1 None None ''[TKT=557]'' 1]"
proof -
  have b: "build_comment 557 False = ''[TKT=557]''" by code_simp
  have 1: "copy_trades no_settings (a_world [malformed_position] []) 1 2 [a_trade 557 ''SELL'']
     = [Emit (CopyError (ValueError ''abc'') 1 2)]"
    by (simp add: copy_trades_def a_world_def receiver_trades_map_def malformed_position_def
        a_trade_def setting_get_def example_tags)
  have 2: "calls (copy_trades no_settings (a_world [manual_position] []) 1 2 [a_trade 557 ''SELL''])
     = [PlaceTrade 2 ''SELL'' ''EURUSD'' 1 None None ''[TKT=557]'' 1]"
    by (simp add: copy_trades_def a_world_def receiver_trades_map_def manual_position_def
        a_trade_def setting_get_def example_tags process_trade_def should_copy_trade_def
        map_symbol_def calculate_lot_size_def mode_volume_def apply_limits_def
        no_settings_def an_account_def b close_missing_trades_def Let_def)
  from 1 2 show ?thesis by simp
qed

section \<open>Trades without a tag\<close>

lemma copy_trades_call_origin:
  assumes "get_account w pid = Some pa" "get_account w rid = Some ra"
    "receiver_trades_map (get_positions w rid) (get_orders w rid) = Inr m"
    "c \<in> set (calls (copy_trades s w pid rid P))"
  shows "(\<exists>tr \<in> set P. c \<in> set (calls (process_trade s w pid rid pa ra m tr)))
         \<or> (\<exists>k r'. (k, r') \<in> set m \<and> c = orphan_call rid r')"
proof -
  from assms(4) have "c \<in> set (concat (map (\<lambda>tr. calls (process_trade s w pid rid pa ra m tr)) P))
      \<or> c \<in> set (map (\<lambda>(k, r). orphan_call rid r) (filter (\<lambda>(k, r). k \<notin> ticket ` set P) m))"
    unfolding calls_copy_trades [OF assms(1-3)] by (auto split: if_splits)
  then show ?thesis
  proof
    assume "c \<in> set (concat (map (\<lambda>tr. calls (process_trade s w pid rid pa ra m tr)) P))"
    then show ?thesis by auto
  next
    assume "c \<in> set (map (\<lambda>(k, r). orphan_call rid r) (filter (\<lambda>(k, r). k \<notin> ticket ` set P) m))"
    then obtain k r' where "(k, r') \<in> set m" "c = orphan_call rid r'" by auto
    then show ?thesis by blast
  qed
qed

lemma copy_trades_touches_held:
  assumes m: "receiver_trades_map (get_positions w rid) (get_orders w rid) = Inr m"
    and c: "c \<in> set (calls (copy_trades s w pid rid P))" "touched c = Some tk"
  shows "\<exists>k r'. (k, r') \<in> set m \<and> ticket r' = tk"
proof (cases "get_account w pid")
  case None
  with c show ?thesis by (simp add: copy_trades_def)
next
  case pa: (Some pa)
  show ?thesis
  proof (cases "get_account w rid")
    case None
    with c pa show ?thesis by (simp add: copy_trades_def)
  next
    case ra: (Some ra)
    from copy_trades_call_origin [OF pa ra m c(1)] show ?thesis
    proof
      assume "\<exists>tr \<in> set P. c \<in> set (calls (process_trade s w pid rid pa ra m tr))"
      then obtain tr where "c \<in> set (calls (process_trade s w pid rid pa ra m tr))" by blast
      from process_trade_touches [OF this c(2)] show ?thesis by simp
    next
      assume "\<exists>k r'. (k, r') \<in> set m \<and> c = orphan_call rid r'"
      then obtain k r' where "(k, r') \<in> set m" "c = orphan_call rid r'" by blast
      with c(2) have "(k, r') \<in> set m \<and> ticket r' = tk" by (simp add: touched_orphan_call)
      then show ?thesis by blast
    qed
  qed
qed

text \<open>
  Claim C8.  Let a receiver trade have a comment from which the parser reads no
  provider ticket.  Then the trade is not a value of the correlation map, and every
  modify, close and delete call of the cycle works on the ticket of a trade held in
  the map; the tickets of the receiver's trades being unique, as the venue assigns
  them, no such call works on the ticket of that trade.
\<close>

theorem untagged_trade_never_touched:
  assumes "r \<in> set (get_positions w rid @ get_orders w rid)"
    and "\<forall>k. parse_ticket (setting_get (comment r) '''') \<noteq> Inr (Some k)"
  shows "(\<forall>m. receiver_trades_map (get_positions w rid) (get_orders w rid) = Inr m \<longrightarrow>
            r \<notin> snd ` set m
            \<and> (\<forall>c \<in> set (calls (copy_trades s w pid rid P)). \<forall>tk.
                 touched c = Some tk \<longrightarrow> tk \<in> (ticket \<circ> snd) ` set m))
         \<and> (distinct (map ticket (get_positions w rid @ get_orders w rid)) \<longrightarrow>
              (\<forall>c \<in> set (calls (copy_trades s w pid rid P)).
                 touched c \<noteq> Some (ticket r)))"
proof (intro conjI allI impI ballI)
  let ?ps = "get_positions w rid" and ?os = "get_orders w rid"
  fix m
  assume m: "receiver_trades_map ?ps ?os = Inr m"
  show "r \<notin> snd ` set m"
  proof
    assume "r \<in> snd ` set m"
    then obtain k where "(k, r) \<in> set m" by auto
    from receiver_trades_map_entries [OF m this] assms(2) show False by simp
  qed
next
  fix m c tk
  assume m: "receiver_trades_map (get_positions w rid) (get_orders w rid) = Inr m"
    and c: "c \<in> set (calls (copy_trades s w pid rid P))" "touched c = Some tk"
  from copy_trades_touches_held [OF m c] obtain k r' where "(k, r') \<in> set m" "ticket r' = tk"
    by blast
  then have "(ticket \<circ> snd) (k, r') = tk" "(k, r') \<in> set m" by simp_all
  then show "tk \<in> (ticket \<circ> snd) ` set m" by blast
next
  let ?ps = "get_positions w rid" and ?os = "get_orders w rid"
  fix c
  assume unique: "distinct (map ticket (?ps @ ?os))"
    and c: "c \<in> set (calls (copy_trades s w pid rid P))"
  show "touched c \<noteq> Some (ticket r)"
  proof (cases "receiver_trades_map ?ps ?os")
    case (Inl e)
    with c show ?thesis by (simp add: copy_trades_def split: option.splits)
  next
    case (Inr m)
    show ?thesis
    proof
      assume "touched c = Some (ticket r)"
      from copy_trades_touches_held [OF Inr c this]
      obtain k r' where kr: "(k, r') \<in> set m" "ticket r' = ticket r" by blast
      from receiver_trades_map_entries [OF Inr kr(1)]
      have r': "r' \<in> set (?ps @ ?os)" "parse_ticket (setting_get (comment r') '''') = Inr (Some k)"
        by simp_all
      from unique have "inj_on ticket (set (?ps @ ?os))" by (simp only: distinct_map)
      from inj_onD [OF this kr(2) r'(1) assms(1)] have "r' = r" .
      with r'(2) assms(2) show False by simp
    qed
  qed
qed

theorem untagged_trade_never_touched_witness:
  "manual_position \<in> set (get_positions example_world 2 @ get_orders example_world 2)
   \<and> parse_ticket (setting_get (comment manual_position) '''') = Inr None
   \<and> distinct (map ticket (get_positions example_world 2 @ get_orders example_world 2))
   \<and> ticket manual_position = 901
   \<and> map touched (calls (copy_trades no_settings example_world 1 2 [a_trade 557 ''SELL_STOP'']))
       = [None, Some 900, Some 902]"
  using untagged_trade_never_touched [of manual_position example_world 2 no_settings 1 "[a_trade 557 ''SELL_STOP'']"]
  by (simp add: example_world_simps example_tickets example_tags setting_get_def example_cycle)

end
